theory Spec2Isabelle
  imports Complex_Main "HOL-Library.List_Lexorder" "HOL-Library.Char_ord"
begin

section \<open>Data model\<close>

text \<open>
  JavaScript numbers are modelled as real numbers; a value that may be \<open>undefined\<close>
  is an option. Item identifiers and descriptor tokens are strings, compared
  lexicographically by character code as \<open>Array.prototype.sort\<close> does without
  a comparator.
\<close>

datatype intensity = light | medium | strong | heavy

text \<open>One record of essentialOils.js (\<open>notes\<close> is an Isar keyword, hence the prefix).\<close>

record oil =
  oil_notes :: "string list"
  oil_intensity :: intensity
  category :: string
  description :: string

text \<open>
  One value of \<open>similarityMatrix\<close> in llmScentEmbeddings.js. The score is read
  from the JSON the oracle process printed, so it may be missing.
\<close>

record entry =
  oil1 :: string
  oil2 :: string
  similarity :: "real option"
  reasoning :: string
  timestamp :: string

text \<open>The fields of \<open>LLMScentEmbeddings\<close> the engine reads and writes.\<close>

record llm_state =
  oils :: "string \<rightharpoonup> oil"
  oilNames :: "string list"
  similarityMatrix :: "string \<rightharpoonup> entry"

section \<open>Similarity cache key\<close>

text \<open>\<open>Array.prototype.join\<close> on an array of strings.\<close>

fun join_strs :: "string \<Rightarrow> string list \<Rightarrow> string" where
  "join_strs sep [] = []"
| "join_strs sep [x] = x"
| "join_strs sep (x # y # ys) = x @ sep @ join_strs sep (y # ys)"

text \<open>\<open>getSimilarityKey(oil1, oil2) { return [oil1, oil2].sort().join('|'); }\<close>\<close>

definition getSimilarityKey :: "string \<Rightarrow> string \<Rightarrow> string" where
  "getSimilarityKey a b = join_strs ''|'' (sort [a, b])"

section \<open>Distance matrix builder\<close>

text \<open>
  \<open>v || d\<close> for a number or \<open>undefined\<close> on the left: \<open>undefined\<close> and \<open>0\<close> are
  falsy, every other real number is truthy.
\<close>

definition js_or :: "real option \<Rightarrow> real \<Rightarrow> real" where
  "js_or v d = (case v of None \<Rightarrow> d | Some x \<Rightarrow> if x = 0 then d else x)"

text \<open>\<open>this.similarityMatrix[key]?.similarity\<close>\<close>

definition stored_similarity :: "(string \<rightharpoonup> entry) \<Rightarrow> string \<Rightarrow> real option" where
  "stored_similarity m key = (case m key of None \<Rightarrow> None | Some e \<Rightarrow> similarity e)"

text \<open>The body of the inner loop of \<open>createDistanceMatrix\<close>, for cell \<open>(i, j)\<close>.\<close>

definition distance_cell :: "llm_state \<Rightarrow> nat \<Rightarrow> nat \<Rightarrow> real" where
  "distance_cell s i j =
     (if i = j then 0
      else (let key = getSimilarityKey (oilNames s ! i) (oilNames s ! j);
                sim = js_or (stored_similarity (similarityMatrix s) key) 50
            in (100 - sim) / 100))"

text \<open>
  \<open>createDistanceMatrix\<close>: both loops run over \<open>0 .. n - 1\<close> with
  \<open>n = oilNames.length\<close>, so every index is in range.
\<close>

definition createDistanceMatrix :: "llm_state \<Rightarrow> real list list" where
  "createDistanceMatrix s =
     (let n = length (oilNames s)
      in map (\<lambda>i. map (\<lambda>j. distance_cell s i j) [0..<n]) [0..<n])"

text \<open>Every stored score that is present lies in the declared range 0 to 100.\<close>

definition scores_in_bounds :: "(string \<rightharpoonup> entry) \<Rightarrow> bool" where
  "scores_in_bounds m =
     (\<forall>k e v. m k = Some e \<longrightarrow> similarity e = Some v \<longrightarrow> 0 \<le> v \<and> v \<le> 100)"

text \<open>
  The distance block of \<open>AINotesVisualization.generateEmbeddings\<close>
  (testAISimilarity.js): scores are on the scale 0 to 1, stored under the key
  \<open>`${oil1}-${oil2}`\<close>, every cell including the diagonal is
  \<open>1 - (similarities[key] || 0)\<close>.
\<close>

definition ai_distance_cell :: "string list \<Rightarrow> (string \<rightharpoonup> real) \<Rightarrow> nat \<Rightarrow> nat \<Rightarrow> real" where
  "ai_distance_cell names sims i j =
     (let oil1 = names ! i; oil2 = names ! j;
          sim = js_or (sims (oil1 @ ''-'' @ oil2)) 0
      in 1 - sim)"

definition ai_distances :: "string list \<Rightarrow> (string \<rightharpoonup> real) \<Rightarrow> real list list" where
  "ai_distances names sims =
     (let n = length names
      in map (\<lambda>i. map (\<lambda>j. ai_distance_cell names sims i j) [0..<n]) [0..<n])"

section \<open>Similarity cache\<close>

text \<open>
  How a computation ends when it does not return a value: the promise was rejected,
  an exception was thrown, a number is \<open>NaN\<close>, or the computation never returns.
\<close>

datatype error = OracleFailed | TypeError | NotANumber | NeverReturns

text \<open>
  \<open>new LLMScentEmbeddings()\<close>: the catalog is the object literal of
  essentialOils.js, given here as its list of properties in source order (the
  names are distinct); \<open>oilNames = Object.keys(this.oils)\<close>.
\<close>

definition new_LLMScentEmbeddings :: "(string \<times> oil) list \<Rightarrow> llm_state" where
  "new_LLMScentEmbeddings essentialOils =
     \<lparr>oils = map_of essentialOils, oilNames = map fst essentialOils,
      similarityMatrix = Map.empty\<rparr>"

text \<open>
  The cache file \<open>similarity_cache.json\<close> after \<open>JSON.parse\<close>: the object
  \<open>saveCache\<close> writes. \<open>JSON.stringify\<close> followed by \<open>JSON.parse\<close> is taken to
  return the same properties (a property holding \<open>undefined\<close> is dropped by the
  one and read as \<open>undefined\<close> after the other).

  A file written by something else may hold any JSON value as \<open>similarityMatrix\<close>:
  none or a falsy one (\<open>NoMatrix\<close>), a truthy number, string or \<open>true\<close>
  (\<open>Primitive\<close>), or an object with its properties (\<open>Entries\<close>).
\<close>

datatype json_matrix = NoMatrix | Primitive | Entries "string \<rightharpoonup> entry"

record cache_json =
  cj_similarityMatrix :: json_matrix
  cj_timestamp :: string
  cj_oilCount :: nat

text \<open>
  The file is missing, or reading or parsing it throws (this includes a file that
  parses to \<open>null\<close>, where reading \<open>.similarityMatrix\<close> throws), or it parses.
\<close>

datatype cache_file = Absent | Unparsable | Parsed cache_json

text \<open>
  The part of the file system the cache uses: the content of the cache file, and
  whether \<open>fs.writeFileSync\<close> succeeds on it.
\<close>

record disk =
  cacheFile :: cache_file
  writable :: bool

text \<open>
  \<open>loadCache\<close>: returns \<open>true\<close> and replaces the matrix when the file exists and
  parses (\<open>this.similarityMatrix = cached.similarityMatrix || {}\<close>); a missing file
  or an exception of \<open>readFileSync\<close> or \<open>JSON.parse\<close> leaves the state as it is
  and returns \<open>false\<close>.

  A truthy primitive is taken as it is. Reading a key of it gives \<open>undefined\<close>, as
  with the empty object, so the state holds the empty map for it; assigning a key
  to it throws a \<open>TypeError\<close> (class bodies are strict code), which
  \<open>loaded_primitive\<close> records for the code that assigns.
\<close>

definition loadCache :: "llm_state \<Rightarrow> disk \<Rightarrow> bool \<times> llm_state" where
  "loadCache s d =
     (case cacheFile d of
        Absent \<Rightarrow> (False, s)
      | Unparsable \<Rightarrow> (False, s)
      | Parsed cached \<Rightarrow>
          (True, s\<lparr>similarityMatrix :=
                     (case cj_similarityMatrix cached of
                        NoMatrix \<Rightarrow> Map.empty
                      | Primitive \<Rightarrow> Map.empty
                      | Entries m \<Rightarrow> m)\<rparr>))"


text \<open>
  \<open>saveCache\<close>: writes the matrix, the clock reading \<open>now\<close> and the number of oils;
  an exception of \<open>writeFileSync\<close> is caught and the file keeps its content.
\<close>

definition saveCache :: "string \<Rightarrow> llm_state \<Rightarrow> disk \<Rightarrow> disk" where
  "saveCache now s d =
     (if writable d
      then d\<lparr>cacheFile := Parsed \<lparr>cj_similarityMatrix = Entries (similarityMatrix s),
                                   cj_timestamp = now,
                                   cj_oilCount = length (oilNames s)\<rparr>\<rparr>
      else d)"

text \<open>\<open>this.similarityMatrix[this.getSimilarityKey(oil1, oil2)]\<close>, read and assigned.\<close>

definition cache_lookup :: "llm_state \<Rightarrow> string \<Rightarrow> string \<Rightarrow> entry option" where
  "cache_lookup s a b = similarityMatrix s (getSimilarityKey a b)"

definition cache_store :: "llm_state \<Rightarrow> string \<Rightarrow> string \<Rightarrow> entry \<Rightarrow> llm_state" where
  "cache_store s a b e =
     s\<lparr>similarityMatrix := (similarityMatrix s)(getSimilarityKey a b \<mapsto> e)\<rparr>"



section \<open>Similarity matrix generation\<close>







text \<open>The pairs \<open>(names[i], names[j])\<close> with \<open>i < j\<close>, in the order of the two loops.\<close>

definition all_pairs :: "string list \<Rightarrow> (string \<times> string) list" where
  "all_pairs names =
     concat (map (\<lambda>i. map (\<lambda>j. (names ! i, names ! j)) [i + 1..<length names])
                 [0..<length names])"


section \<open>Fallback similarity of the fast demo\<close>





section \<open>Classical MDS\<close>

text \<open>
  Matrices are lists of rows. \<open>performMDS\<close> is called on the square matrix that
  \<open>createDistanceMatrix\<close> returns, and every vector has as many entries as the
  matrix has rows, so every index below is in range.
\<close>

type_synonym vec = "real list"
type_synonym matrix = "real list list"

text \<open>\<open>centerDistanceMatrix\<close> of llmScentEmbeddings.js.\<close>

definition centerDistanceMatrix :: "matrix \<Rightarrow> matrix" where
  "centerDistanceMatrix distances =
     (let n = length distances;
          rowMeans = map (\<lambda>row. foldl (\<lambda>sum val. sum + val) 0 row / real n) distances;
          colMeans = map (\<lambda>j. foldl (\<lambda>acc i. acc + distances ! i ! j) 0 [0..<n] / real n) [0..<n];
          grandMean = foldl (\<lambda>sum val. sum + val) 0 rowMeans / real n
      in map (\<lambda>i. map (\<lambda>j. distances ! i ! j - rowMeans ! i - colMeans ! j + grandMean) [0..<n])
             [0..<n])"

text \<open>
  The centering loop of \<open>AINotesVisualization.simpleMDS\<close> (testAISimilarity.js).
  Its result \<open>centered\<close> is not read again: the coordinates of \<open>simpleMDS\<close> come
  from the stress minimisation that follows.
\<close>

definition simpleMDS_centered :: "matrix \<Rightarrow> matrix" where
  "simpleMDS_centered distances =
     (let n = length distances
      in map (\<lambda>i. map (\<lambda>j.
                let d_sq = distances ! i ! j * distances ! i ! j;
                    row_mean = foldl (\<lambda>sum val. sum + val * val) 0 (distances ! i) / real n;
                    col_mean = foldl (\<lambda>sum val. sum + val) 0
                                 (map (\<lambda>row. row ! j * row ! j) distances) / real n;
                    total_mean = foldl (\<lambda>sum val. sum + val) 0
                                   (map (\<lambda>val. val * val) (concat distances)) / real (n * n)
                in - 0.5 * (d_sq - row_mean - col_mean + total_mean)) [0..<n]) [0..<n])"

text \<open>
  The centering step in the words of the specification: square every entry, then
  \<open>B[i][j] = -0.5 * (D2[i][j] - rowMean(D2)[i] - colMean(D2)[j] + grandMean(D2))\<close>.
\<close>

definition spec_double_centered :: "matrix \<Rightarrow> matrix" where
  "spec_double_centered D =
     (let n = length D;
          D2 = map (map (\<lambda>x. x * x)) D;
          rowMean = (\<lambda>i. sum_list (D2 ! i) / real n);
          colMean = (\<lambda>j. sum_list (map (\<lambda>row. row ! j) D2) / real n);
          grandMean = sum_list (concat D2) / real (n * n)
      in map (\<lambda>i. map (\<lambda>j. - 0.5 * (D2 ! i ! j - rowMean i - colMean j + grandMean)) [0..<n])
             [0..<n])"

text \<open>Every row is as long as the matrix has rows.\<close>

definition square_matrix :: "matrix \<Rightarrow> bool" where
  "square_matrix D = (\<forall>row \<in> set D. length row = length D)"

text \<open>\<open>dotProduct\<close>, \<open>matrixVectorMultiply\<close>, \<open>deflateMatrix\<close>.\<close>

definition dotProduct :: "vec \<Rightarrow> vec \<Rightarrow> real" where
  "dotProduct a b = foldl (\<lambda>sum (val, bi). sum + val * bi) 0 (zip a b)"

definition matrixVectorMultiply :: "matrix \<Rightarrow> vec \<Rightarrow> vec" where
  "matrixVectorMultiply m v = map (\<lambda>row. dotProduct row v) m"

definition deflateMatrix :: "matrix \<Rightarrow> vec \<Rightarrow> real \<Rightarrow> matrix" where
  "deflateMatrix m eigenvector eigenvalue =
     (let n = length m
      in map (\<lambda>i. map (\<lambda>j. m ! i ! j - eigenvalue * eigenvector ! i * eigenvector ! j) [0..<n])
             [0..<n])"

text \<open>
  One pass of the power iteration of \<open>eigenDecomposition\<close>:
  \<open>newVector = W v; norm = sqrt(sum of squares); vector = newVector.map(val => val / norm)\<close>.
  There is no test of \<open>norm\<close>. When it is 0, every entry of \<open>newVector\<close> is 0 and the
  quotient \<open>0 / 0\<close> is \<open>NaN\<close>, which no real number models: the result is then
  \<open>Inl NotANumber\<close>, and every later value computed from the vector is \<open>NaN\<close> too.
\<close>

definition power_step :: "matrix \<Rightarrow> vec \<Rightarrow> error + vec" where
  "power_step workingMatrix v =
     (let newVector = matrixVectorMultiply workingMatrix v;
          norm = sqrt (foldl (\<lambda>sum val. sum + val * val) 0 newVector)
      in if norm = 0 \<and> newVector \<noteq> [] then Inl NotANumber
         else Inr (map (\<lambda>val. val / norm) newVector))"

fun power_iteration :: "nat \<Rightarrow> matrix \<Rightarrow> vec \<Rightarrow> error + vec" where
  "power_iteration 0 workingMatrix v = Inr v"
| "power_iteration (Suc k) workingMatrix v =
     (case power_step workingMatrix v of
        Inl err \<Rightarrow> Inl err
      | Inr v' \<Rightarrow> power_iteration k workingMatrix v')"

text \<open>
  The loop \<open>for (e = 0; e < maxEigen; e++)\<close>, one start vector per round: 100
  passes, the eigenvalue \<open>v . (W v)\<close>, deflation, next round.
\<close>

fun eigen_rounds :: "matrix \<Rightarrow> vec list \<Rightarrow> error + real list \<times> vec list" where
  "eigen_rounds workingMatrix [] = Inr ([], [])"
| "eigen_rounds workingMatrix (start # starts) =
     (case power_iteration 100 workingMatrix start of
        Inl err \<Rightarrow> Inl err
      | Inr v \<Rightarrow>
          (let matVec = matrixVectorMultiply workingMatrix v;
               eigenvalue = dotProduct v matVec
           in case eigen_rounds (deflateMatrix workingMatrix v eigenvalue) starts of
                Inl err \<Rightarrow> Inl err
              | Inr (eigenvalues, eigenvectors) \<Rightarrow>
                  Inr (eigenvalue # eigenvalues, v # eigenvectors)))"

text \<open>
  \<open>eigenDecomposition\<close>. The start vectors are \<open>Math.random() - 0.5\<close> per entry;
  the draws are the parameter \<open>rnd\<close> (round, index). The result is the eigenvalues
  and the transposed eigenvectors.
\<close>

definition eigenDecomposition :: "matrix \<Rightarrow> (nat \<Rightarrow> nat \<Rightarrow> real) \<Rightarrow> error + real list \<times> matrix" where
  "eigenDecomposition m rnd =
     (let n = length m; maxEigen = 2
      in case eigen_rounds m (map (\<lambda>e. map (\<lambda>i. rnd e i - 0.5) [0..<n]) [0..<maxEigen]) of
           Inl err \<Rightarrow> Inl err
         | Inr (eigenvalues, eigenvectors) \<Rightarrow>
             Inr (eigenvalues, map (\<lambda>i. map (\<lambda>v. v ! i) eigenvectors) [0..<n]))"

text \<open>\<open>performMDS(distances, dimensions)\<close>; the callers pass \<open>dimensions = 2\<close>.\<close>

definition performMDS :: "matrix \<Rightarrow> (nat \<Rightarrow> nat \<Rightarrow> real) \<Rightarrow> nat \<Rightarrow> error + matrix" where
  "performMDS distances rnd dimensions =
     (let n = length distances;
          centeredDistances = centerDistanceMatrix distances
      in case eigenDecomposition centeredDistances rnd of
           Inl err \<Rightarrow> Inl err
         | Inr (eigenvalues, eigenvectors) \<Rightarrow>
             Inr (map (\<lambda>i. map (\<lambda>d. sqrt \<bar>eigenvalues ! d\<bar> * eigenvectors ! i ! d)
                              [0..<dimensions]) [0..<n]))"

text \<open>
  \<open>normalizeVector\<close> of scentEmbeddings.js, the same step on the PCA path:
  \<open>magnitude > 0 ? vector.map(val => val / magnitude) : vector\<close>.
\<close>

definition normalizeVector :: "vec \<Rightarrow> vec" where
  "normalizeVector v =
     (let magnitude = sqrt (foldl (\<lambda>sum val. sum + val * val) 0 v)
      in if magnitude > 0 then map (\<lambda>val. val / magnitude) v else v)"

section \<open>Force-directed layout\<close>

text \<open>
  \<open>FastAIDemo.generateEmbeddings\<close> (generateFastAIDemo.js). \<open>coords\<close> and
  \<open>forces\<close> are objects keyed by oil name that hold a point for every oil of
  \<open>demoOils\<close>; only those keys are read or written.
\<close>

type_synonym point = "real \<times> real"
type_synonym coords = "string \<Rightarrow> point"

text \<open>
  The body of the inner loop for the pair \<open>(oil1, oil2)\<close>. The distance is
  \<open>Math.sqrt(dx * dx + dy * dy) || 0.001\<close>. A missing similarity is \<open>undefined\<close>
  and makes the forces \<open>NaN\<close>.
\<close>

definition pair_forces :: "(string \<rightharpoonup> real) \<Rightarrow> coords \<Rightarrow> string \<times> string \<Rightarrow> coords \<Rightarrow> error + coords" where
  "pair_forces similarities c p forces =
     (let oil1 = fst p; oil2 = snd p;
          dx = fst (c oil1) - fst (c oil2);
          dy = snd (c oil1) - snd (c oil2);
          distance = js_or (Some (sqrt (dx * dx + dy * dy))) 0.001
      in case similarities (oil1 @ ''-'' @ oil2) of
           None \<Rightarrow> Inl NotANumber
         | Some sim \<Rightarrow>
             (let targetDistance = 1 - sim;
                  force = (distance - targetDistance) * 0.1;
                  f1 = forces(oil1 := (fst (forces oil1) - force * dx / distance,
                                       snd (forces oil1) - force * dy / distance));
                  f2 = f1(oil2 := (fst (f1 oil2) + force * dx / distance,
                                   snd (f1 oil2) + force * dy / distance))
              in Inr f2))"

fun accumulate_forces :: "(string \<rightharpoonup> real) \<Rightarrow> coords \<Rightarrow> (string \<times> string) list \<Rightarrow> coords \<Rightarrow> error + coords" where
  "accumulate_forces similarities c [] forces = Inr forces"
| "accumulate_forces similarities c (p # ps) forces =
     (case pair_forces similarities c p forces of
        Inl err \<Rightarrow> Inl err
      | Inr forces' \<Rightarrow> accumulate_forces similarities c ps forces')"

text \<open>\<open>this.demoOils.forEach(oil => { coords[oil].x += forces[oil].x; ... })\<close>\<close>

definition apply_forces :: "string list \<Rightarrow> coords \<Rightarrow> coords \<Rightarrow> coords" where
  "apply_forces demoOils forces c =
     fold (\<lambda>oil c'. c'(oil := (fst (c' oil) + fst (forces oil), snd (c' oil) + snd (forces oil))))
          demoOils c"

text \<open>One round of the loop \<open>for (iter = 0; iter < 200; iter++)\<close>.\<close>

definition layout_iteration :: "(string \<rightharpoonup> real) \<Rightarrow> string list \<Rightarrow> coords \<Rightarrow> error + coords" where
  "layout_iteration similarities demoOils c =
     (case accumulate_forces similarities c (all_pairs demoOils) (\<lambda>oil. (0, 0)) of
        Inl err \<Rightarrow> Inl err
      | Inr forces \<Rightarrow> Inr (apply_forces demoOils forces c))"

fun layout_loop :: "nat \<Rightarrow> (string \<rightharpoonup> real) \<Rightarrow> string list \<Rightarrow> coords \<Rightarrow> error + coords" where
  "layout_loop 0 similarities demoOils c = Inr c"
| "layout_loop (Suc k) similarities demoOils c =
     (case layout_iteration similarities demoOils c of
        Inl err \<Rightarrow> Inl err
      | Inr c' \<Rightarrow> layout_loop k similarities demoOils c')"

text \<open>
  The start positions \<open>((Math.random() - 0.5) * 2, (Math.random() - 0.5) * 2)\<close>;
  the two draws for each oil are the parameter \<open>rnd\<close>.
\<close>

definition initial_coords :: "(string \<Rightarrow> real \<times> real) \<Rightarrow> coords" where
  "initial_coords rnd = (\<lambda>oil. ((fst (rnd oil) - 0.5) * 2, (snd (rnd oil) - 0.5) * 2))"

text \<open>The coordinates \<open>generateEmbeddings\<close> ends with, before the metadata is attached.\<close>

definition generateEmbeddings_coords :: "(string \<rightharpoonup> real) \<Rightarrow> string list \<Rightarrow> (string \<Rightarrow> real \<times> real) \<Rightarrow> error + coords" where
  "generateEmbeddings_coords similarities demoOils rnd =
     layout_loop 200 similarities demoOils (initial_coords rnd)"

text \<open>The Euclidean distance between two points, for stating what the layout reaches.\<close>

definition euclid :: "point \<Rightarrow> point \<Rightarrow> real" where
  "euclid p q = sqrt ((fst p - fst q) * (fst p - fst q) + (snd p - snd q) * (snd p - snd q))"

section \<open>Feature vectorizer\<close>

text \<open>
  \<open>ScentEmbeddings\<close> (scentEmbeddings.js). \<open>this.oils\<close> is the catalog, here the
  list \<open>Object.entries(this.oils)\<close>. \<open>buildVocabulary\<close> adds every note of every
  oil to a \<open>Set\<close>; \<open>Array.from\<close> lists the set in insertion order.
\<close>

definition buildVocabulary :: "(string \<times> oil) list \<Rightarrow> string list" where
  "buildVocabulary catalog =
     fold (\<lambda>note vocabulary. if note \<in> set vocabulary then vocabulary else vocabulary @ [note])
          (concat (map (\<lambda>(oilName, oilData). oil_notes oilData) catalog)) []"

text \<open>\<open>documentFreq[note]\<close>: the number of oils whose notes include the note.\<close>

definition documentFreq :: "(string \<times> oil) list \<Rightarrow> string \<Rightarrow> nat" where
  "documentFreq catalog note =
     length (filter (\<lambda>(oilName, oilData). note \<in> set (oil_notes oilData)) catalog)"

text \<open>The embedding of one oil; \<open>Math.log\<close> is the natural logarithm.\<close>

definition embedding_of :: "(string \<times> oil) list \<Rightarrow> string list \<Rightarrow> oil \<Rightarrow> vec" where
  "embedding_of catalog vocabularyArray oilData =
     map (\<lambda>note.
            if note \<in> set (oil_notes oilData)
            then (let tf = 1 / real (length (oil_notes oilData));
                      idf = ln (real (length catalog) / real (documentFreq catalog note))
                  in tf * idf)
            else 0)
         vocabularyArray"

text \<open>\<open>createEmbeddings\<close>: \<open>this.embeddings\<close> as the list of its properties.\<close>

definition createEmbeddings :: "(string \<times> oil) list \<Rightarrow> string list \<Rightarrow> (string \<times> vec) list" where
  "createEmbeddings catalog vocabularyArray =
     map (\<lambda>(oilName, oilData). (oilName, embedding_of catalog vocabularyArray oilData)) catalog"

section \<open>Example inputs\<close>

definition ex_entry :: "string \<Rightarrow> string \<Rightarrow> real \<Rightarrow> entry" where
  "ex_entry a b v =
     \<lparr>oil1 = a, oil2 = b, similarity = Some v, reasoning = ''r'', timestamp = ''t''\<rparr>"

text \<open>Two oils with one stored score of 80.\<close>

definition ex_state_scored :: llm_state where
  "ex_state_scored =
     \<lparr>oils = Map.empty, oilNames = [''rose'', ''lavender''],
      similarityMatrix = [''lavender|rose'' \<mapsto> ex_entry ''rose'' ''lavender'' 80]\<rparr>"

text \<open>Two oils and no stored score.\<close>

definition ex_state_empty :: llm_state where
  "ex_state_empty =
     \<lparr>oils = Map.empty, oilNames = [''rose'', ''lavender''], similarityMatrix = Map.empty\<rparr>"

text \<open>Two oils whose stored score is the minimum 0.\<close>

definition ex_state_zero :: llm_state where
  "ex_state_zero =
     \<lparr>oils = Map.empty, oilNames = [''rose'', ''lavender''],
      similarityMatrix = [''lavender|rose'' \<mapsto> ex_entry ''rose'' ''lavender'' 0]\<rparr>"

text \<open>A disk without a cache file that accepts writes.\<close>

definition ex_disk :: disk where
  "ex_disk = \<lparr>cacheFile = Absent, writable = True\<rparr>"

text \<open>Three records of essentialOils.js; the last two have the same category.\<close>

definition ex_lavender :: oil where
  "ex_lavender =
     \<lparr>oil_notes = [''floral'', ''fresh'', ''calming'', ''sweet'', ''herbaceous''],
      oil_intensity = medium, category = ''floral'',
      description = ''Classic calming floral with sweet undertones''\<rparr>"

definition ex_sandalwood :: oil where
  "ex_sandalwood =
     \<lparr>oil_notes = [''woody'', ''warm'', ''creamy'', ''sweet'', ''base''],
      oil_intensity = heavy, category = ''woody'',
      description = ''Rich, creamy wood with lasting warmth''\<rparr>"

definition ex_cedarwood :: oil where
  "ex_cedarwood =
     \<lparr>oil_notes = [''woody'', ''dry'', ''warm'', ''grounding'', ''pencil shavings''],
      oil_intensity = medium, category = ''woody'',
      description = ''Dry, warm wood with grounding qualities''\<rparr>"

definition ex_catalog :: "(string \<times> oil) list" where
  "ex_catalog =
     [(''lavender'', ex_lavender), (''sandalwood'', ex_sandalwood),
      (''cedarwood'', ex_cedarwood)]"





text \<open>Two oils whose stored score is the maximum 100.\<close>

definition ex_state_identical :: llm_state where
  "ex_state_identical =
     \<lparr>oils = Map.empty, oilNames = [''rose'', ''lavender''],
      similarityMatrix = [''lavender|rose'' \<mapsto> ex_entry ''rose'' ''lavender'' 100]\<rparr>"

text \<open>A catalog of one oil with one note.\<close>

definition ex_single :: "(string \<times> oil) list" where
  "ex_single =
     [(''solo'', \<lparr>oil_notes = [''x''], oil_intensity = light, category = ''c'',
                  description = ''d''\<rparr>)]"

text \<open>Two oils that share the note \<open>s\<close> and have one note of their own each.\<close>

definition ex_shared :: "(string \<times> oil) list" where
  "ex_shared =
     [(''a'', \<lparr>oil_notes = [''s'', ''p''], oil_intensity = light, category = ''c'',
               description = ''d''\<rparr>),
      (''b'', \<lparr>oil_notes = [''s'', ''q''], oil_intensity = light, category = ''c'',
               description = ''d''\<rparr>)]"

text \<open>Similarity 0.5 for the pair of two oils, target distance 0.5.\<close>

definition ex_sims :: "string \<rightharpoonup> real" where
  "ex_sims = [''a-b'' \<mapsto> 1/2, ''b-a'' \<mapsto> 1/2, ''a-a'' \<mapsto> 1, ''b-b'' \<mapsto> 1]"

text \<open>Random draws that put both oils at the same point, and draws that do not.\<close>

definition ex_rnd_same :: "string \<Rightarrow> real \<times> real" where
  "ex_rnd_same oil = (1/2, 1/2)"

definition ex_rnd_apart :: "string \<Rightarrow> real \<times> real" where
  "ex_rnd_apart oil = (if oil = ''a'' then (1/4, 1/2) else (3/4, 1/2))"

section \<open>Properties of the cache key\<close>

lemma sort_pair_commute: "sort [a, b] = sort [b, (a::string)]"
  by (auto simp: insort_key.simps)

lemma getSimilarityKey_commute: "getSimilarityKey a b = getSimilarityKey b a"
  unfolding getSimilarityKey_def by (simp only: sort_pair_commute)

section \<open>Properties of the distance matrix builder\<close>

lemma createDistanceMatrix_nth:
  assumes "i < length (oilNames s)" "j < length (oilNames s)"
  shows "createDistanceMatrix s ! i ! j = distance_cell s i j"
  using assms by (simp add: createDistanceMatrix_def Let_def)

lemma distance_cell_sym: "distance_cell s i j = distance_cell s j i"
  unfolding distance_cell_def Let_def
  by (simp add: getSimilarityKey_commute [of "oilNames s ! i"])

lemma js_or_bounds:
  assumes "\<And>x. v = Some x \<Longrightarrow> 0 \<le> x \<and> x \<le> 100"
  shows "0 \<le> js_or v 50 \<and> js_or v 50 \<le> 100"
  using assms by (cases v) (auto simp: js_or_def)

lemma stored_similarity_bounds:
  assumes "scores_in_bounds m" "stored_similarity m k = Some x"
  shows "0 \<le> x \<and> x \<le> 100"
  using assms unfolding scores_in_bounds_def stored_similarity_def
  by (auto split: option.splits)

lemma distance_cell_range:
  assumes "scores_in_bounds (similarityMatrix s)"
  shows "0 \<le> distance_cell s i j \<and> distance_cell s i j \<le> 1"
proof (cases "i = j")
  case True
  then show ?thesis by (simp add: distance_cell_def)
next
  case False
  let ?v = "stored_similarity (similarityMatrix s)
              (getSimilarityKey (oilNames s ! i) (oilNames s ! j))"
  have "0 \<le> js_or ?v 50 \<and> js_or ?v 50 \<le> 100"
    by (rule js_or_bounds) (rule stored_similarity_bounds [OF assms])
  with False show ?thesis by (simp add: distance_cell_def Let_def)
qed

text \<open>
  C1. When every stored score lies in 0 to 100, \<open>createDistanceMatrix\<close> returns
  an n by n matrix (n the number of oils) that is symmetric, has a zero diagonal and
  has every entry between 0 and 1.
\<close>

theorem createDistanceMatrix_symmetric_unit:
  assumes "scores_in_bounds (similarityMatrix s)"
  shows "length (createDistanceMatrix s) = length (oilNames s) \<and>
         (\<forall>i < length (oilNames s).
            length (createDistanceMatrix s ! i) = length (oilNames s) \<and>
            createDistanceMatrix s ! i ! i = 0 \<and>
            (\<forall>j < length (oilNames s).
               createDistanceMatrix s ! i ! j = createDistanceMatrix s ! j ! i \<and>
               0 \<le> createDistanceMatrix s ! i ! j \<and>
               createDistanceMatrix s ! i ! j \<le> 1))"
proof (intro conjI allI impI)
  show "length (createDistanceMatrix s) = length (oilNames s)"
    by (simp add: createDistanceMatrix_def Let_def)
next
  fix i assume "i < length (oilNames s)"
  then show "length (createDistanceMatrix s ! i) = length (oilNames s)"
    by (simp add: createDistanceMatrix_def Let_def)
next
  fix i assume "i < length (oilNames s)"
  then show "createDistanceMatrix s ! i ! i = 0"
    by (simp add: createDistanceMatrix_nth distance_cell_def)
next
  fix i j assume "i < length (oilNames s)" "j < length (oilNames s)"
  then show "createDistanceMatrix s ! i ! j = createDistanceMatrix s ! j ! i"
    using distance_cell_sym [of s i j] by (simp add: createDistanceMatrix_nth)
next
  fix i j assume "i < length (oilNames s)" "j < length (oilNames s)"
  then show "0 \<le> createDistanceMatrix s ! i ! j"
    using distance_cell_range [OF assms, of i j] by (simp add: createDistanceMatrix_nth)
next
  fix i j assume "i < length (oilNames s)" "j < length (oilNames s)"
  then show "createDistanceMatrix s ! i ! j \<le> 1"
    using distance_cell_range [OF assms, of i j] by (simp add: createDistanceMatrix_nth)
qed

lemma ex_key: "getSimilarityKey ''rose'' ''lavender'' = ''lavender|rose''"
  by (simp add: getSimilarityKey_def insort_key.simps)

lemma ex_state_scored_matrix: "createDistanceMatrix ex_state_scored = [ [0, 1/5], [1/5, 0] ]"
  by (simp add: createDistanceMatrix_def distance_cell_def ex_state_scored_def ex_entry_def
      ex_key getSimilarityKey_commute [of "''lavender''" "''rose''"]
      stored_similarity_def js_or_def Let_def upt_rec [of 0] upt_rec [of 1])

theorem createDistanceMatrix_symmetric_unit_witness:
  "scores_in_bounds (similarityMatrix ex_state_scored) \<and>
   createDistanceMatrix ex_state_scored = [ [0, 1/5], [1/5, 0] ] \<and>
   createDistanceMatrix ex_state_scored ! 0 ! 1 = createDistanceMatrix ex_state_scored ! 1 ! 0 \<and>
   createDistanceMatrix ex_state_scored ! 0 ! 1 \<le> 1"
proof -
  have h: "scores_in_bounds (similarityMatrix ex_state_scored)"
    by (auto simp: scores_in_bounds_def ex_state_scored_def ex_entry_def split: if_splits)
  have n: "length (oilNames ex_state_scored) = 2"
    by (simp add: ex_state_scored_def)
  from createDistanceMatrix_symmetric_unit [OF h]
  have "createDistanceMatrix ex_state_scored ! 0 ! 1 = createDistanceMatrix ex_state_scored ! 1 ! 0 \<and>
        createDistanceMatrix ex_state_scored ! 0 ! 1 \<le> 1"
    unfolding n by (metis one_less_numeral_iff pos2 semiring_norm(76))
  with h ex_state_scored_matrix show ?thesis by blast
qed

text \<open>
  C10. A pair whose stored score is exactly 0 gets the same distance from
  \<open>createDistanceMatrix\<close> as a pair with no entry at all: the score is replaced
  by the default 50, so the distance is 0.5 and not 1.
\<close>

theorem stored_zero_same_as_absent:
  assumes "i < length (oilNames s)" "j < length (oilNames s)" "i \<noteq> j"
    and "similarityMatrix s (getSimilarityKey (oilNames s ! i) (oilNames s ! j)) = Some e"
    and "similarity e = Some 0"
  shows "createDistanceMatrix s ! i ! j = 1/2 \<and>
         createDistanceMatrix s ! i ! j \<noteq> 1 \<and>
         createDistanceMatrix s ! i ! j =
           createDistanceMatrix
             (s\<lparr>similarityMatrix :=
                  (similarityMatrix s)
                    (getSimilarityKey (oilNames s ! i) (oilNames s ! j) := None)\<rparr>) ! i ! j"
  using assms
  by (simp add: createDistanceMatrix_nth distance_cell_def stored_similarity_def js_or_def
      Let_def)

theorem stored_zero_same_as_absent_witness:
  "similarityMatrix ex_state_zero
     (getSimilarityKey (oilNames ex_state_zero ! 0) (oilNames ex_state_zero ! 1)) =
     Some (ex_entry ''rose'' ''lavender'' 0) \<and>
   similarity (ex_entry ''rose'' ''lavender'' 0) = Some 0 \<and>
   createDistanceMatrix ex_state_zero ! 0 ! 1 = 1/2"
proof -
  have n: "0 < length (oilNames ex_state_zero)" "1 < length (oilNames ex_state_zero)"
    by (simp_all add: ex_state_zero_def)
  have k: "similarityMatrix ex_state_zero
     (getSimilarityKey (oilNames ex_state_zero ! 0) (oilNames ex_state_zero ! 1)) =
     Some (ex_entry ''rose'' ''lavender'' 0)"
    by (simp add: ex_state_zero_def ex_key)
  have z: "similarity (ex_entry ''rose'' ''lavender'' 0) = Some 0"
    by (simp add: ex_entry_def)
  from stored_zero_same_as_absent [OF n _ k z] k z show ?thesis by simp
qed

text \<open>
  C2, as stated, fails on the distance block of
  \<open>AINotesVisualization.generateEmbeddings\<close>: with no stored score for the pair
  the distance is 1, the distance of similarity zero, not 0.5.
\<close>

theorem ai_distances_absent_counterexample:
  "(Map.empty :: string \<rightharpoonup> real) (''rose'' @ ''-'' @ ''lavender'') = None \<and>
   ai_distances [''rose'', ''lavender''] Map.empty ! 0 ! 1 = 1 \<and>
   ai_distances [''rose'', ''lavender''] Map.empty ! 0 ! 1 \<noteq> 1/2"
  by (simp add: ai_distances_def ai_distance_cell_def js_or_def Let_def)

text \<open>
  C2, amended. For two different oils whose pair has no entry in the similarity
  matrix, \<open>createDistanceMatrix\<close> uses the neutral default 50 and returns distance
  0.5; the distance block of \<open>AINotesVisualization.generateEmbeddings\<close> uses the
  default 0 for a pair without a stored score and returns distance 1.
\<close>

theorem absent_pair_distance:
  "(i < length (oilNames s) \<longrightarrow> j < length (oilNames s) \<longrightarrow> i \<noteq> j \<longrightarrow>
      similarityMatrix s (getSimilarityKey (oilNames s ! i) (oilNames s ! j)) = None \<longrightarrow>
      createDistanceMatrix s ! i ! j = 1/2) \<and>
   (i' < length names \<longrightarrow> j' < length names \<longrightarrow>
      sims (names ! i' @ ''-'' @ names ! j') = None \<longrightarrow>
      ai_distances names sims ! i' ! j' = 1)"
  by (simp add: createDistanceMatrix_nth distance_cell_def stored_similarity_def js_or_def
      ai_distances_def ai_distance_cell_def Let_def)

theorem absent_pair_distance_witness:
  "similarityMatrix ex_state_empty
     (getSimilarityKey (oilNames ex_state_empty ! 0) (oilNames ex_state_empty ! 1)) = None \<and>
   createDistanceMatrix ex_state_empty ! 0 ! 1 = 1/2 \<and>
   (Map.empty :: string \<rightharpoonup> real) ([''rose'', ''lavender''] ! 0 @ ''-'' @ [''rose'', ''lavender''] ! 1) = None \<and>
   ai_distances [''rose'', ''lavender''] Map.empty ! 0 ! 1 = 1"
  using absent_pair_distance [of 0 ex_state_empty 1 0 "[''rose'', ''lavender'']" 1 Map.empty]
  by (simp add: ex_state_empty_def)

section \<open>Properties of the similarity cache\<close>

lemma getSimilarityKey_sorted:
  "getSimilarityKey a b = min a b @ ''|'' @ max a b"
  by (auto simp: getSimilarityKey_def insort_key.simps min_def max_def)

text \<open>
  C6. The key of \<open>(a, b)\<close> is the key of \<open>(b, a)\<close>: the smaller identifier, the
  separator, the larger identifier. So looking up \<open>(a, b)\<close> and \<open>(b, a)\<close> gives the
  same result. After storing an entry for the pair and saving the cache to a disk
  that accepts the write, a fresh instance that loads the cache holds the same
  pair-to-entry mapping and returns the stored entry for the pair in either order.
\<close>

theorem cache_key_canonical_roundtrip:
  "getSimilarityKey a b = getSimilarityKey b a \<and>
   getSimilarityKey a b = min a b @ ''|'' @ max a b \<and>
   cache_lookup s a b = cache_lookup s b a \<and>
   (writable d \<longrightarrow>
      fst (loadCache fresh (saveCache now (cache_store s a b e) d)) \<and>
      similarityMatrix (snd (loadCache fresh (saveCache now (cache_store s a b e) d))) =
        similarityMatrix (cache_store s a b e) \<and>
      cache_lookup (snd (loadCache fresh (saveCache now (cache_store s a b e) d))) a b = Some e \<and>
      cache_lookup (snd (loadCache fresh (saveCache now (cache_store s a b e) d))) b a = Some e)"
proof (intro conjI impI)
  show "getSimilarityKey a b = getSimilarityKey b a"
    by (rule getSimilarityKey_commute)
  show "getSimilarityKey a b = min a b @ ''|'' @ max a b"
    by (rule getSimilarityKey_sorted)
  show "cache_lookup s a b = cache_lookup s b a"
    by (simp add: cache_lookup_def getSimilarityKey_commute [of a b])
next
  assume w: "writable d"
  let ?s2 = "snd (loadCache fresh (saveCache now (cache_store s a b e) d))"
  show "fst (loadCache fresh (saveCache now (cache_store s a b e) d))"
    using w by (simp add: loadCache_def saveCache_def)
  show m: "similarityMatrix ?s2 = similarityMatrix (cache_store s a b e)"
    using w by (simp add: loadCache_def saveCache_def)
  show "cache_lookup ?s2 a b = Some e"
    unfolding cache_lookup_def m by (simp add: cache_store_def)
  show "cache_lookup ?s2 b a = Some e"
    unfolding cache_lookup_def m
    by (simp add: cache_store_def getSimilarityKey_commute [of a b])
qed

theorem cache_key_canonical_roundtrip_witness:
  "writable ex_disk \<and>
   getSimilarityKey ''rose'' ''lavender'' = ''lavender|rose'' \<and>
   cache_lookup
     (snd (loadCache (new_LLMScentEmbeddings ex_catalog)
       (saveCache ''t'' (cache_store ex_state_empty ''rose'' ''lavender''
          (ex_entry ''rose'' ''lavender'' 80)) ex_disk)))
     ''lavender'' ''rose'' = Some (ex_entry ''rose'' ''lavender'' 80)"
proof -
  have w: "writable ex_disk" by (simp add: ex_disk_def)
  from cache_key_canonical_roundtrip [of "''rose''" "''lavender''" ex_state_empty ex_disk
      "new_LLMScentEmbeddings ex_catalog" "''t''" "ex_entry ''rose'' ''lavender'' 80"] w
  show ?thesis by (simp add: ex_key)
qed

section \<open>Properties of the similarity matrix generation\<close>


















section \<open>Properties of the classical MDS path\<close>

lemma upt_2: "[0..<2] = [0, Suc 0]"
  by (simp add: upt_rec)

lemma foldl_add_sum:
  fixes a :: real
  shows "foldl (\<lambda>sum val. sum + f val) a xs = a + sum_list (map f xs)"
  by (induction xs arbitrary: a) simp_all

lemma foldl_plus_sum:
  fixes a :: real
  shows "foldl (\<lambda>sum val. sum + val) a xs = a + sum_list xs"
  using foldl_add_sum [of "\<lambda>x. x" a xs] by simp

text \<open>
  The centering loop of \<open>simpleMDS\<close> computes the double-centered matrix of the
  squared distances, as the specification words it.
\<close>

lemma simpleMDS_centered_is_spec:
  assumes "square_matrix D"
  shows "simpleMDS_centered D = spec_double_centered D"
proof -
  have len: "\<And>i. i < length D \<Longrightarrow> length (D ! i) = length D"
    using assms by (simp add: square_matrix_def)
  have col: "map (\<lambda>row. row ! j * row ! j) D = map (\<lambda>row. row ! j) (map (map (\<lambda>x. x * x)) D)"
    if "j < length D" for j
    using assms that by (simp add: square_matrix_def)
  show ?thesis
    unfolding simpleMDS_centered_def spec_double_centered_def Let_def
    by (rule map_cong [OF refl], rule map_cong [OF refl])
       (simp add: foldl_add_sum foldl_plus_sum len col map_concat)
qed

text \<open>
  C3. On the distance matrix of two oils without a stored score (distance 0.5),
  \<open>centerDistanceMatrix\<close>, whose result \<open>performMDS\<close> hands to
  \<open>eigenDecomposition\<close>, returns entries \<open>-1/4\<close> and \<open>1/4\<close>: the distances are not
  squared and the factor \<open>-0.5\<close> is not applied. The double-centered squared
  matrix of the claim has entries \<open>1/16\<close> and \<open>-1/16\<close>, which is what the centering
  loop of \<open>simpleMDS\<close> computes.
\<close>

theorem centerDistanceMatrix_not_squared:
  "createDistanceMatrix ex_state_empty = [ [0, 1/2], [1/2, 0] ] \<and>
   centerDistanceMatrix [ [0, 1/2], [1/2, 0] ] = [ [-1/4, 1/4], [1/4, -1/4] ] \<and>
   spec_double_centered [ [0, 1/2], [1/2, 0] ] = [ [1/16, -1/16], [-1/16, 1/16] ] \<and>
   simpleMDS_centered [ [0, 1/2], [1/2, 0] ] = [ [1/16, -1/16], [-1/16, 1/16] ]"
proof (intro conjI)
  show "createDistanceMatrix ex_state_empty = [ [0, 1/2], [1/2, 0] ]"
    by (simp add: createDistanceMatrix_def distance_cell_def ex_state_empty_def
        stored_similarity_def js_or_def Let_def upt_2)
  show "centerDistanceMatrix [ [0, 1/2], [1/2, 0] ] = [ [-1/4, 1/4], [1/4, -1/4] ]"
    by (simp add: centerDistanceMatrix_def Let_def upt_2)
  show "spec_double_centered [ [0, 1/2], [1/2, 0] ] = [ [1/16, -1/16], [-1/16, 1/16] ]"
    by (simp add: spec_double_centered_def Let_def upt_2)
  show "simpleMDS_centered [ [0, 1/2], [1/2, 0] ] = [ [1/16, -1/16], [-1/16, 1/16] ]"
    by (simp add: simpleMDS_centered_def Let_def upt_2)
qed

lemma power_step_zero_matrix: "power_step [ [0, 0], [0, 0] ] [a, b] = Inl NotANumber"
  by (simp add: power_step_def matrixVectorMultiply_def dotProduct_def Let_def)

lemma power_iteration_zero_matrix:
  "power_iteration 100 [ [0, 0], [0, 0] ] [a, b] = Inl NotANumber"
  using power_step_zero_matrix [of a b]
    power_iteration.simps(2) [of 99 "[ [0, 0], [0, 0] ]" "[a, b]"]
  by simp

text \<open>The same step on the PCA path keeps a zero vector as it is.\<close>

lemma normalizeVector_zero: "normalizeVector [0, 0] = [0, 0]"
  by (simp add: normalizeVector_def)

text \<open>
  C5. Two oils whose stored score is 100 give the all-zero distance matrix. On it
  the first pass of the power iteration divides \<open>0\<close> by the norm \<open>0\<close>, whatever the
  random start vector: the coordinates \<open>performMDS\<close> returns are not numbers.
\<close>

theorem performMDS_zero_matrix_not_a_number:
  "createDistanceMatrix ex_state_identical = [ [0, 0], [0, 0] ] \<and>
   performMDS [ [0, 0], [0, 0] ] rnd 2 = Inl NotANumber"
proof
  show "createDistanceMatrix ex_state_identical = [ [0, 0], [0, 0] ]"
    by (simp add: createDistanceMatrix_def distance_cell_def ex_state_identical_def
        ex_entry_def ex_key getSimilarityKey_commute [of "''lavender''" "''rose''"]
        stored_similarity_def js_or_def Let_def upt_2)
  have "centerDistanceMatrix [ [0, 0], [0, 0] ] = [ [0, 0], [0, 0] ]"
    by (simp add: centerDistanceMatrix_def Let_def upt_2)
  then show "performMDS [ [0, 0], [0, 0] ] rnd 2 = Inl NotANumber"
    by (simp add: performMDS_def eigenDecomposition_def power_iteration_zero_matrix
        Let_def upt_2)
qed

section \<open>Properties of the feature vectorizer\<close>

lemma createEmbeddings_nth:
  assumes "k < length catalog" "i < length V"
  shows "snd (createEmbeddings catalog V ! k) ! i =
          (if V ! i \<in> set (oil_notes (snd (catalog ! k)))
           then 1 / real (length (oil_notes (snd (catalog ! k)))) *
                ln (real (length catalog) / real (documentFreq catalog (V ! i)))
           else 0)"
  using assms
  by (simp add: createEmbeddings_def embedding_of_def Let_def split: prod.splits)

lemma documentFreq_card:
  "documentFreq catalog note =
     card {k. k < length catalog \<and> note \<in> set (oil_notes (snd (catalog ! k)))}"
  unfolding documentFreq_def length_filter_conv_card
  by (simp add: case_prod_beta)

lemma documentFreq_all:
  assumes "\<forall>k < length catalog. note \<in> set (oil_notes (snd (catalog ! k)))"
  shows "documentFreq catalog note = length catalog"
proof -
  have "{k. k < length catalog \<and> note \<in> set (oil_notes (snd (catalog ! k)))} = {..<length catalog}"
    using assms by auto
  then show ?thesis by (simp add: documentFreq_card)
qed

lemma documentFreq_unique:
  assumes "k < length catalog" "note \<in> set (oil_notes (snd (catalog ! k)))"
    and "\<forall>k' < length catalog. k' \<noteq> k \<longrightarrow> note \<notin> set (oil_notes (snd (catalog ! k')))"
  shows "documentFreq catalog note = 1"
proof -
  have "{k. k < length catalog \<and> note \<in> set (oil_notes (snd (catalog ! k)))} = {k}"
    using assms by auto
  then show ?thesis by (simp add: documentFreq_card)
qed


text \<open>
  C7, as stated, fails on a catalog of one oil: its note belongs to one item only,
  and the weight is \<open>1 * ln (1 / 1) = 0\<close>, not strictly positive.
\<close>

theorem single_item_weight_counterexample:
  "length ex_single = 1 \<and>
   buildVocabulary ex_single = [''x''] \<and>
   ''x'' \<in> set (oil_notes (snd (ex_single ! 0))) \<and>
   documentFreq ex_single ''x'' = 1 \<and>
   createEmbeddings ex_single (buildVocabulary ex_single) = [(''solo'', [0])] \<and>
   \<not> 0 < snd (createEmbeddings ex_single (buildVocabulary ex_single) ! 0) ! 0"
proof -
  have v: "buildVocabulary ex_single = [''x'']"
    by (simp add: buildVocabulary_def ex_single_def)
  have e: "createEmbeddings ex_single [''x''] = [(''solo'', [0])]"
    by (simp add: createEmbeddings_def embedding_of_def documentFreq_def ex_single_def)
  show ?thesis
    unfolding v e by (simp add: documentFreq_def) (simp add: ex_single_def)
qed

text \<open>
  C7, amended. For every oil \<open>k\<close> of the catalog and every index \<open>i\<close> of the
  vocabulary, the weight is (1 / number of notes of the oil) times
  ln (number of oils / number of oils with the note) when the oil has the note, and
  0 otherwise. So a note that every oil has weighs 0 for every oil; and, in a catalog
  of at least two oils, a note that only oil \<open>k\<close> has weighs strictly more than 0
  for \<open>k\<close> and 0 for every other oil.
\<close>

theorem tfidf_weights:
  assumes "k < length catalog" "i < length (buildVocabulary catalog)"
  shows "snd (createEmbeddings catalog (buildVocabulary catalog) ! k) ! i =
           (if buildVocabulary catalog ! i \<in> set (oil_notes (snd (catalog ! k)))
            then 1 / real (length (oil_notes (snd (catalog ! k)))) *
                 ln (real (length catalog) /
                     real (documentFreq catalog (buildVocabulary catalog ! i)))
            else 0) \<and>
         ((\<forall>k' < length catalog.
             buildVocabulary catalog ! i \<in> set (oil_notes (snd (catalog ! k')))) \<longrightarrow>
          snd (createEmbeddings catalog (buildVocabulary catalog) ! k) ! i = 0) \<and>
         (2 \<le> length catalog \<and>
          buildVocabulary catalog ! i \<in> set (oil_notes (snd (catalog ! k))) \<and>
          (\<forall>k' < length catalog. k' \<noteq> k \<longrightarrow>
             buildVocabulary catalog ! i \<notin> set (oil_notes (snd (catalog ! k')))) \<longrightarrow>
          0 < snd (createEmbeddings catalog (buildVocabulary catalog) ! k) ! i \<and>
          (\<forall>k' < length catalog. k' \<noteq> k \<longrightarrow>
             snd (createEmbeddings catalog (buildVocabulary catalog) ! k') ! i = 0))"
proof (intro conjI impI)
  let ?V = "buildVocabulary catalog"
  show "snd (createEmbeddings catalog ?V ! k) ! i =
           (if ?V ! i \<in> set (oil_notes (snd (catalog ! k)))
            then 1 / real (length (oil_notes (snd (catalog ! k)))) *
                 ln (real (length catalog) / real (documentFreq catalog (?V ! i)))
            else 0)"
    using assms by (rule createEmbeddings_nth)
next
  let ?V = "buildVocabulary catalog"
  assume "\<forall>k' < length catalog. ?V ! i \<in> set (oil_notes (snd (catalog ! k')))"
  then have "documentFreq catalog (?V ! i) = length catalog"
    by (rule documentFreq_all)
  then show "snd (createEmbeddings catalog ?V ! k) ! i = 0"
    using assms by (simp add: createEmbeddings_nth)
next
  let ?V = "buildVocabulary catalog"
  assume u: "2 \<le> length catalog \<and>
             ?V ! i \<in> set (oil_notes (snd (catalog ! k))) \<and>
             (\<forall>k' < length catalog. k' \<noteq> k \<longrightarrow>
                ?V ! i \<notin> set (oil_notes (snd (catalog ! k'))))"
  then have df: "documentFreq catalog (?V ! i) = 1"
    using assms(1) documentFreq_unique [of k catalog "?V ! i"] by blast
  have "0 < length (oil_notes (snd (catalog ! k)))"
    using u by (auto simp: length_greater_0_conv)
  moreover have "1 < real (length catalog)"
    using u by linarith
  then have "0 < ln (real (length catalog))"
    by (rule ln_gt_zero)
  ultimately show "0 < snd (createEmbeddings catalog ?V ! k) ! i"
    using assms u by (simp add: createEmbeddings_nth df)
next
  let ?V = "buildVocabulary catalog"
  assume u: "2 \<le> length catalog \<and>
             ?V ! i \<in> set (oil_notes (snd (catalog ! k))) \<and>
             (\<forall>k' < length catalog. k' \<noteq> k \<longrightarrow>
                ?V ! i \<notin> set (oil_notes (snd (catalog ! k'))))"
  show "\<forall>k' < length catalog. k' \<noteq> k \<longrightarrow> snd (createEmbeddings catalog ?V ! k') ! i = 0"
    using u assms(2) by (simp add: createEmbeddings_nth)
qed

lemma ex_shared_vocabulary: "buildVocabulary ex_shared = [''s'', ''p'', ''q'']"
  by (simp add: buildVocabulary_def ex_shared_def)

theorem tfidf_weights_witness:
  "(0::nat) < length ex_shared \<and> (1::nat) < length (buildVocabulary ex_shared) \<and>
   2 \<le> length ex_shared \<and>
   buildVocabulary ex_shared ! 0 = ''s'' \<and>
   snd (createEmbeddings ex_shared (buildVocabulary ex_shared) ! 0) ! 0 = 0 \<and>
   buildVocabulary ex_shared ! 1 = ''p'' \<and>
   0 < snd (createEmbeddings ex_shared (buildVocabulary ex_shared) ! 0) ! 1 \<and>
   snd (createEmbeddings ex_shared (buildVocabulary ex_shared) ! 1) ! 1 = 0"
proof -
  have n: "length ex_shared = 2" by (simp add: ex_shared_def)
  have k: "(0::nat) < length ex_shared" by (simp add: n)
  have i0: "(0::nat) < length (buildVocabulary ex_shared)"
    and i1: "(1::nat) < length (buildVocabulary ex_shared)"
    by (simp_all add: ex_shared_vocabulary)
  have lt2: "k' < 2 \<longleftrightarrow> k' = 0 \<or> k' = 1" for k' :: nat by auto
  have all: "\<forall>k' < length ex_shared.
               buildVocabulary ex_shared ! 0 \<in> set (oil_notes (snd (ex_shared ! k')))"
    unfolding n lt2 by (simp add: ex_shared_vocabulary) (simp add: ex_shared_def)
  have uniq: "2 \<le> length ex_shared \<and>
              buildVocabulary ex_shared ! 1 \<in> set (oil_notes (snd (ex_shared ! 0))) \<and>
              (\<forall>k' < length ex_shared. k' \<noteq> 0 \<longrightarrow>
                 buildVocabulary ex_shared ! 1 \<notin> set (oil_notes (snd (ex_shared ! k'))))"
    unfolding n lt2 by (simp add: ex_shared_vocabulary) (simp add: ex_shared_def)
  from tfidf_weights [OF k i0] all
  have a: "snd (createEmbeddings ex_shared (buildVocabulary ex_shared) ! 0) ! 0 = 0"
    by blast
  from tfidf_weights [OF k i1] uniq
  have b: "0 < snd (createEmbeddings ex_shared (buildVocabulary ex_shared) ! 0) ! 1 \<and>
           (\<forall>k' < length ex_shared. k' \<noteq> 0 \<longrightarrow>
              snd (createEmbeddings ex_shared (buildVocabulary ex_shared) ! k') ! 1 = 0)"
    by blast
  then have c: "snd (createEmbeddings ex_shared (buildVocabulary ex_shared) ! 1) ! 1 = 0"
    unfolding n by simp
  from k i1 n a b c show ?thesis
    by (simp add: ex_shared_vocabulary)
qed

section \<open>Properties of the force-directed layout\<close>

text \<open>The divisor of the force terms is never 0.\<close>

lemma floored_distance_pos: "0 < js_or (Some (sqrt (dx * dx + dy * dy))) 0.001"
proof -
  have "0 \<le> sqrt (dx * dx + dy * dy)" by simp
  then show ?thesis
    unfolding js_or_def by (simp add: less_le)
qed

lemma all_pairs_two: "all_pairs [a, b] = [(a, b)]"
  by (simp add: all_pairs_def upt_rec [of 0] upt_rec [of 1] upt_rec [of 2])

lemma layout_iteration_two:
  assumes "a \<noteq> b" "similarities (a @ ''-'' @ b) = Some s"
  shows "layout_iteration similarities [a, b] c =
           Inr (let dx = fst (c a) - fst (c b);
                    dy = snd (c a) - snd (c b);
                    distance = js_or (Some (sqrt (dx * dx + dy * dy))) 0.001;
                    force = (distance - (1 - s)) * 0.1
                in c(a := (fst (c a) - force * dx / distance, snd (c a) - force * dy / distance),
                     b := (fst (c b) + force * dx / distance, snd (c b) + force * dy / distance)))"
  using assms
  by (simp add: layout_iteration_def all_pairs_two pair_forces_def apply_forces_def Let_def)

lemma coincident_fixed:
  assumes "a \<noteq> b" "similarities (a @ ''-'' @ b) = Some s" "c a = c b"
  shows "layout_iteration similarities [a, b] c = Inr c"
  using assms by (simp add: layout_iteration_two Let_def fun_upd_idem)

lemma coincident_loop:
  assumes "a \<noteq> b" "similarities (a @ ''-'' @ b) = Some s" "c a = c b"
  shows "layout_loop k similarities [a, b] c = Inr c"
  using assms by (induction k) (simp_all add: coincident_fixed [of a b similarities s c])

lemma euclid_step:
  assumes "a \<noteq> b" "similarities (a @ ''-'' @ b) = Some s" "s \<le> 1"
    and "0 < euclid (c a) (c b)"
  shows "\<exists>c'. layout_iteration similarities [a, b] c = Inr c' \<and>
           euclid (c' a) (c' b) = (4 * euclid (c a) (c b) + (1 - s)) / 5"
proof -
  define dx where "dx = fst (c a) - fst (c b)"
  define dy where "dy = snd (c a) - snd (c b)"
  define r where "r = sqrt (dx * dx + dy * dy)"
  define t where "t = 1 - s"
  define q where "q = (4 * r + t) / (5 * r)"
  have r: "r = euclid (c a) (c b)" by (simp add: r_def dx_def dy_def euclid_def)
  then have rpos: "0 < r" using assms by simp
  have t: "0 \<le> t" using assms by (simp add: t_def)
  have qpos: "0 \<le> q" using rpos t by (simp add: q_def)
  define force where "force = (r - t) * 0.1"
  define c' where "c' = c(a := (fst (c a) - force * dx / r, snd (c a) - force * dy / r),
                     b := (fst (c b) + force * dx / r, snd (c b) + force * dy / r))"
  have it: "layout_iteration similarities [a, b] c = Inr c'"
    using rpos assms(1,2)
    by (simp add: layout_iteration_two Let_def js_or_def c'_def force_def
        dx_def [symmetric] dy_def [symmetric] r_def [symmetric] t_def [symmetric])
  have "fst (c' a) - fst (c' b) = dx - 2 * (force * dx / r)"
    using assms(1) by (simp add: c'_def dx_def)
  also have "\<dots> = dx * q"
    using rpos by (simp add: force_def q_def field_simps)
  finally have x: "fst (c' a) - fst (c' b) = dx * q" .
  have "snd (c' a) - snd (c' b) = dy - 2 * (force * dy / r)"
    using assms(1) by (simp add: c'_def dy_def)
  also have "\<dots> = dy * q"
    using rpos by (simp add: force_def q_def field_simps)
  finally have y: "snd (c' a) - snd (c' b) = dy * q" .
  have "euclid (c' a) (c' b) = sqrt ((dx * dx + dy * dy) * (q * q))"
    unfolding euclid_def x y by (simp add: algebra_simps)
  also have "\<dots> = r * q"
    using qpos by (simp add: real_sqrt_mult r_def)
  also have "\<dots> = (4 * r + t) / 5"
    using rpos by (simp add: q_def)
  finally show ?thesis using it r t_def by auto
qed

lemma euclid_loop:
  assumes "a \<noteq> b" "similarities (a @ ''-'' @ b) = Some s" "s \<le> 1"
    and "0 < euclid (c a) (c b)"
  shows "\<exists>c'. layout_loop k similarities [a, b] c = Inr c' \<and>
           0 < euclid (c' a) (c' b) \<and>
           euclid (c' a) (c' b) - (1 - s) = (4/5) ^ k * (euclid (c a) (c b) - (1 - s))"
  using assms(4)
proof (induction k arbitrary: c)
  case 0
  then show ?case by simp
next
  case (Suc k)
  from euclid_step [of a b similarities s c] assms(1-3) Suc.prems
  obtain c1 where 1: "layout_iteration similarities [a, b] c = Inr c1"
    and r1: "euclid (c1 a) (c1 b) = (4 * euclid (c a) (c b) + (1 - s)) / 5"
    by blast
  have pos1: "0 < euclid (c1 a) (c1 b)"
    using Suc.prems assms(3) unfolding r1 by simp
  from Suc.IH [OF pos1] obtain c' where
    2: "layout_loop k similarities [a, b] c1 = Inr c'" and
    p: "0 < euclid (c' a) (c' b)" and
    e: "euclid (c' a) (c' b) - (1 - s) = (4/5) ^ k * (euclid (c1 a) (c1 b) - (1 - s))"
    by blast
  have "euclid (c1 a) (c1 b) - (1 - s) = 4/5 * (euclid (c a) (c b) - (1 - s))"
    unfolding r1 by (simp add: field_simps)
  with e have "euclid (c' a) (c' b) - (1 - s) = (4/5) ^ Suc k * (euclid (c a) (c b) - (1 - s))"
    by simp
  with 1 2 p show ?case by simp
qed

lemma euclid_pos: "p \<noteq> q \<Longrightarrow> 0 < euclid p q"
proof -
  assume "p \<noteq> q"
  then have "fst p - fst q \<noteq> 0 \<or> snd p - snd q \<noteq> 0"
    by (auto simp: prod_eq_iff)
  then have "0 < (fst p - fst q) * (fst p - fst q) + (snd p - snd q) * (snd p - snd q)"
    by (metis add_pos_nonneg add_nonneg_pos mult_nonneg_nonneg not_square_less_zero
        less_eq_real_def linorder_not_less zero_le_square mult_eq_0_iff)
  then show ?thesis by (simp add: euclid_def)
qed

lemma euclid_initial_le:
  assumes "0 \<le> fst (rnd a)" "fst (rnd a) \<le> 1" "0 \<le> snd (rnd a)" "snd (rnd a) \<le> 1"
    "0 \<le> fst (rnd b)" "fst (rnd b) \<le> 1" "0 \<le> snd (rnd b)" "snd (rnd b) \<le> 1"
  shows "euclid (initial_coords rnd a) (initial_coords rnd b) \<le> 3"
proof -
  define dx where "dx = fst (initial_coords rnd a) - fst (initial_coords rnd b)"
  define dy where "dy = snd (initial_coords rnd a) - snd (initial_coords rnd b)"
  have "\<bar>dx\<bar> \<le> 2" "\<bar>dy\<bar> \<le> 2"
    using assms by (simp_all add: dx_def dy_def initial_coords_def)
  then have "dx * dx \<le> 4" "dy * dy \<le> 4"
    using abs_le_square_iff [of dx 2] abs_le_square_iff [of dy 2] by (simp_all add: power2_eq_square)
  then have "dx * dx + dy * dy \<le> 3\<^sup>2" by simp
  then have "sqrt (dx * dx + dy * dy) \<le> 3"
    by (rule real_le_lsqrt [rotated -1]) simp_all
  then show ?thesis by (simp add: euclid_def dx_def dy_def)
qed

lemma pow_small: "(4/5 :: real) ^ 200 * 3 \<le> 1/20"
proof -
  have "(4/5 :: real) ^ 200 \<le> (4/5) ^ 20"
    by (rule power_decreasing) simp_all
  also have "\<dots> \<le> 1/60" by (simp add: power_divide)
  finally show ?thesis by simp
qed


text \<open>
  C8, as stated, fails when the two oils start at the same point: the difference
  vector is zero, so the forces are zero in every round and the points never
  separate. With target distance 0.5 the realized distance after the 200 rounds is
  0.
\<close>

theorem coincident_start_counterexample:
  "ex_sims (''a'' @ ''-'' @ ''b'') = Some (1/2) \<and>
   generateEmbeddings_coords ex_sims [''a'', ''b''] ex_rnd_same = Inr (initial_coords ex_rnd_same) \<and>
   euclid (initial_coords ex_rnd_same ''a'') (initial_coords ex_rnd_same ''b'') = 0 \<and>
   \<not> \<bar>euclid (initial_coords ex_rnd_same ''a'') (initial_coords ex_rnd_same ''b'') - (1 - 1/2)\<bar>
        \<le> 0.05"
proof -
  have s: "ex_sims (''a'' @ ''-'' @ ''b'') = Some (1/2)"
    by (simp add: ex_sims_def)
  have i: "initial_coords ex_rnd_same ''a'' = initial_coords ex_rnd_same ''b''"
    by (simp add: initial_coords_def ex_rnd_same_def)
  have g: "generateEmbeddings_coords ex_sims [''a'', ''b''] ex_rnd_same
             = Inr (initial_coords ex_rnd_same)"
    unfolding generateEmbeddings_coords_def
    using coincident_loop [of "''a''" "''b''" ex_sims "1/2" "initial_coords ex_rnd_same" 200] s i
    by simp
  have e: "euclid (initial_coords ex_rnd_same ''a'') (initial_coords ex_rnd_same ''b'') = 0"
    unfolding i by (simp add: euclid_def)
  show ?thesis
    unfolding e using s g by simp
qed

text \<open>
  C8, amended. For two oils with a stored similarity between 0 and 1 (target
  distance \<open>d = 1 - similarity\<close>), random draws between 0 and 1 and start positions
  that differ, the 200 rounds end with coordinates whose Euclidean distance is
  within 0.05 of \<open>d\<close>.
\<close>

theorem two_item_layout_converges:
  assumes "a \<noteq> b" "similarities (a @ ''-'' @ b) = Some s" "0 \<le> s" "s \<le> 1"
    and "0 \<le> fst (rnd a)" "fst (rnd a) \<le> 1" "0 \<le> snd (rnd a)" "snd (rnd a) \<le> 1"
    and "0 \<le> fst (rnd b)" "fst (rnd b) \<le> 1" "0 \<le> snd (rnd b)" "snd (rnd b) \<le> 1"
    and "initial_coords rnd a \<noteq> initial_coords rnd b"
  shows "\<exists>c. generateEmbeddings_coords similarities [a, b] rnd = Inr c \<and>
           \<bar>euclid (c a) (c b) - (1 - s)\<bar> \<le> 0.05"
proof -
  let ?c0 = "initial_coords rnd"
  let ?r0 = "euclid (?c0 a) (?c0 b)"
  have pos: "0 < ?r0" using assms(13) by (rule euclid_pos)
  have le: "?r0 \<le> 3" using assms(5-12) by (rule euclid_initial_le)
  from euclid_loop [of a b similarities s ?c0 200] assms(1,2,4) pos
  obtain c where c: "layout_loop 200 similarities [a, b] ?c0 = Inr c"
    and e: "euclid (c a) (c b) - (1 - s) = (4/5) ^ 200 * (?r0 - (1 - s))"
    by blast
  have "\<bar>?r0 - (1 - s)\<bar> \<le> 3" using pos le assms(3,4) by simp
  then have "\<bar>euclid (c a) (c b) - (1 - s)\<bar> \<le> (4/5) ^ 200 * 3"
    unfolding e abs_mult by (simp add: mult_left_mono)
  also note pow_small
  finally show ?thesis using c by (simp add: generateEmbeddings_coords_def)
qed

theorem two_item_layout_converges_witness:
  "''a'' \<noteq> ''b'' \<and> ex_sims (''a'' @ ''-'' @ ''b'') = Some (1/2) \<and>
   initial_coords ex_rnd_apart ''a'' \<noteq> initial_coords ex_rnd_apart ''b'' \<and>
   (\<exists>c. generateEmbeddings_coords ex_sims [''a'', ''b''] ex_rnd_apart = Inr c \<and>
        \<bar>euclid (c ''a'') (c ''b'') - (1 - 1/2)\<bar> \<le> 0.05)"
proof -
  have s: "ex_sims (''a'' @ ''-'' @ ''b'') = Some (1/2)"
    by (simp add: ex_sims_def)
  have d: "initial_coords ex_rnd_apart ''a'' \<noteq> initial_coords ex_rnd_apart ''b''"
    by (simp add: initial_coords_def ex_rnd_apart_def)
  have "\<exists>c. generateEmbeddings_coords ex_sims [''a'', ''b''] ex_rnd_apart = Inr c \<and>
          \<bar>euclid (c ''a'') (c ''b'') - (1 - 1/2)\<bar> \<le> 0.05"
    using two_item_layout_converges [of "''a''" "''b''" ex_sims "1/2" ex_rnd_apart] s d
    by (simp add: ex_rnd_apart_def)
  with s d show ?thesis by simp
qed

end
